theory Spec2Isabelle
  imports Main
begin

section \<open>Data model\<close>

text \<open>
  The search query handed to the search engine is a plain JavaScript object literal.
  It is kept as a tree of JSON values; an object is an association list in the order
  in which the literal writes its keys.
\<close>

datatype json =
    JNull
  | JBool bool
  | JNumber int
  | JString string
  | JArray "json list"
  | JObject "(string \<times> json) list"

text \<open>
  \<^verbatim>\<open>CompiledSearchParam\<close> is declared in \<^verbatim>\<open>FHIRSearchParametersRegistry\<close>; \<^verbatim>\<open>tokenQuery\<close>
  reads only its \<^verbatim>\<open>path\<close>. The theorems are stated over the record scheme, so they hold
  whatever further fields the compiled parameter carries.
\<close>

record CompiledSearchParam =
  path :: string

text \<open>
  \<^verbatim>\<open>TokenSearchValue\<close>: each of the three properties is optional; \<open>None\<close> is
  \<^verbatim>\<open>undefined\<close>.
\<close>

record TokenSearchValue =
  system :: "string option"
  code :: "string option"
  explicitNoSystemProperty :: "bool option"

datatype error = InvalidSearchParameterError string

section \<open>tokenQuery\<close>

definition FIELDS_WITHOUT_KEYWORD :: "string list" where
  "FIELDS_WITHOUT_KEYWORD = [''id'']"

definition SUPPORTED_MODIFIERS :: "string list" where
  "SUPPORTED_MODIFIERS = []"

text \<open>
  The guard \<^verbatim>\<open>modifier && !SUPPORTED_MODIFIERS.includes(modifier)\<close>: an absent modifier
  and the empty string are both falsy. The result is the modifier that the guard rejects,
  if it rejects one.
\<close>

definition unsupportedModifier :: "string option \<Rightarrow> string option" where
  "unsupportedModifier modifier =
     (case modifier of
        None \<Rightarrow> None
      | Some m \<Rightarrow> if m \<noteq> [] \<and> m \<notin> set SUPPORTED_MODIFIERS then Some m else None)"

definition useKeywordSuffix :: "'a CompiledSearchParam_scheme \<Rightarrow> bool \<Rightarrow> bool" where
  "useKeywordSuffix compiled useKeywordSubFields =
     (useKeywordSubFields \<and> path compiled \<notin> set FIELDS_WITHOUT_KEYWORD)"

definition keywordSuffix :: "'a CompiledSearchParam_scheme \<Rightarrow> bool \<Rightarrow> string" where
  "keywordSuffix compiled useKeywordSubFields =
     (if useKeywordSuffix compiled useKeywordSubFields then ''.keyword'' else '''')"

text \<open>The object literal \<^verbatim>\<open>{ multi_match: { fields, query, lenient: true } }\<close>.\<close>

definition multi_match :: "string list \<Rightarrow> string \<Rightarrow> json" where
  "multi_match fieldNames query =
     JObject [(''multi_match'',
       JObject [(''fields'', JArray (map JString fieldNames)),
                (''query'', JString query),
                (''lenient'', JBool True)])]"

text \<open>The clauses pushed by the block \<^verbatim>\<open>if (system !== undefined)\<close>.\<close>

definition systemQueries ::
  "'a CompiledSearchParam_scheme \<Rightarrow> 'b TokenSearchValue_scheme \<Rightarrow> bool \<Rightarrow> json list" where
  "systemQueries compiled val useKeywordSubFields =
     (case system val of
        None \<Rightarrow> []
      | Some s \<Rightarrow>
          [multi_match
             [path compiled @ ''.system'' @ keywordSuffix compiled useKeywordSubFields,
              path compiled @ ''.coding.system'' @ keywordSuffix compiled useKeywordSubFields]
             s])"

text \<open>The local array \<^verbatim>\<open>fields\<close> of the block \<^verbatim>\<open>if (code !== undefined)\<close>.\<close>

definition codeFields :: "'a CompiledSearchParam_scheme \<Rightarrow> bool \<Rightarrow> string list" where
  "codeFields compiled useKeywordSubFields =
     [path compiled @ ''.code'' @ keywordSuffix compiled useKeywordSubFields,
      path compiled @ ''.coding.code'' @ keywordSuffix compiled useKeywordSubFields,
      path compiled @ ''.value'' @ keywordSuffix compiled useKeywordSubFields,
      path compiled @ keywordSuffix compiled useKeywordSubFields]
     @ (if useKeywordSuffix compiled useKeywordSubFields then [path compiled] else [])"

text \<open>The object literal \<^verbatim>\<open>{ bool: { must: { term: { intent: c } } } }\<close>.\<close>

definition intentTerm :: "string \<Rightarrow> json" where
  "intentTerm c =
     JObject [(''bool'',
       JObject [(''must'',
         JObject [(''term'', JObject [(''intent'', JString c)])])])]"

text \<open>The clauses pushed by the block \<^verbatim>\<open>if (code !== undefined)\<close>.\<close>

definition codeQueries ::
  "'a CompiledSearchParam_scheme \<Rightarrow> 'b TokenSearchValue_scheme \<Rightarrow> bool \<Rightarrow> json list" where
  "codeQueries compiled val useKeywordSubFields =
     (case code val of
        None \<Rightarrow> []
      | Some c \<Rightarrow>
          (if path compiled = ''intent'' \<and> c = ''order'' then [intentTerm ''order'']
           else if path compiled = ''intent'' \<and> c = ''original-order''
             then [intentTerm ''original-order'']
           else [multi_match (codeFields compiled useKeywordSubFields) c]))"

text \<open>
  The clauses pushed by the block \<^verbatim>\<open>if (explicitNoSystemProperty)\<close>: the flag is tested for
  truthiness, so \<^verbatim>\<open>false\<close> and \<^verbatim>\<open>undefined\<close> both skip the block.
\<close>

definition noSystemQueries ::
  "'a CompiledSearchParam_scheme \<Rightarrow> 'b TokenSearchValue_scheme \<Rightarrow> json list" where
  "noSystemQueries compiled val =
     (if explicitNoSystemProperty val = Some True
      then [JObject [(''bool'',
              JObject [(''must_not'',
                JObject [(''exists'',
                  JObject [(''field'', JString (path compiled @ ''.system''))])])])]]
      else [])"

text \<open>The local array \<^verbatim>\<open>queries\<close> as it stands when the three blocks have run.\<close>

definition queries ::
  "'a CompiledSearchParam_scheme \<Rightarrow> 'b TokenSearchValue_scheme \<Rightarrow> bool \<Rightarrow> json list" where
  "queries compiled val useKeywordSubFields =
     systemQueries compiled val useKeywordSubFields
     @ codeQueries compiled val useKeywordSubFields
     @ noSystemQueries compiled val"

text \<open>The object literal \<^verbatim>\<open>{ bool: { must: queries } }\<close>.\<close>

definition boolMust :: "json list \<Rightarrow> json" where
  "boolMust qs = JObject [(''bool'', JObject [(''must'', JArray qs)])]"

text \<open>
  \<^verbatim>\<open>tokenQuery(compiled, value, useKeywordSubFields, modifier)\<close>. The \<^verbatim>\<open>throw\<close> is the
  \<open>Inl\<close> branch; the logging calls have no part in the result and are left out.
\<close>

definition tokenQuery ::
  "'a CompiledSearchParam_scheme \<Rightarrow> 'b TokenSearchValue_scheme \<Rightarrow> bool \<Rightarrow> string option
     \<Rightarrow> error + json" where
  "tokenQuery compiled val useKeywordSubFields modifier =
     (case unsupportedModifier modifier of
        Some m \<Rightarrow>
          Inl (InvalidSearchParameterError (''Unsupported token search modifier: '' @ m))
      | None \<Rightarrow>
          (let qs = queries compiled val useKeywordSubFields
           in if length qs = 1 then Inr (qs ! 0) else Inr (boolMust qs)))"

section \<open>Matching subscriptions\<close>

text \<open>
  A resource is a \<^verbatim>\<open>Record<string, any>\<close>: a map from property names to values, where
  \<open>None\<close> is \<^verbatim>\<open>undefined\<close>.
\<close>

type_synonym resource = "string \<rightharpoonup> json"

text \<open>
  \<^verbatim>\<open>Subscription\<close> is declared in \<^verbatim>\<open>subscriptions\<close>; the matcher reads its optional
  \<^verbatim>\<open>tenantId\<close> and its \<^verbatim>\<open>parsedCriteria\<close>. The type \<open>'c\<close> of the parsed criteria is left
  open, and the record scheme leaves room for the remaining fields.
\<close>

record 'c Subscription =
  tenantId :: "string option"
  parsedCriteria :: 'c

text \<open>
  \<^verbatim>\<open>SubscriptionNotification\<close>, with the fields that \<^verbatim>\<open>match\<close> reads.
\<close>

record SubscriptionNotification =
  subscriptionId :: string
  matchedResource :: resource
  channelType :: string

text \<open>
  \<^verbatim>\<open>subscription.tenantId === resource._tenantId\<close>: strict equality of a
  \<^verbatim>\<open>string | undefined\<close> with a value of any type.
\<close>

definition tenantStrictEquals :: "string option \<Rightarrow> json option \<Rightarrow> bool" where
  "tenantStrictEquals t v =
     (case t of
        None \<Rightarrow> v = None
      | Some s \<Rightarrow> v = Some (JString s))"

text \<open>
  \<^verbatim>\<open>matchSubscription\<close>. The in-memory matcher \<^verbatim>\<open>matchParsedFhirQueryParams\<close> is imported
  from \<^verbatim>\<open>InMemoryMatcher\<close> and is a parameter here.
\<close>

definition matchSubscription ::
  "('c \<Rightarrow> resource \<Rightarrow> bool) \<Rightarrow> ('c, 'a) Subscription_scheme \<Rightarrow> resource \<Rightarrow> bool" where
  "matchSubscription matchParsedFhirQueryParams subscription res =
     (tenantStrictEquals (tenantId subscription) (res ''_tenantId'')
      \<and> matchParsedFhirQueryParams (parsedCriteria subscription) res)"

text \<open>
  The constant \<^verbatim>\<open>subscriptionNotifications\<close> of \<^verbatim>\<open>match\<close>:
  \<^verbatim>\<open>activeSubscriptions.flatMap(s => eligibleResources.filter(...).map(...))\<close>.
  \<^verbatim>\<open>buildNotification\<close> is imported from \<^verbatim>\<open>subscriptions\<close> and is a parameter.
\<close>

definition subscriptionNotifications ::
  "('c \<Rightarrow> resource \<Rightarrow> bool) \<Rightarrow> (('c, 'a) Subscription_scheme \<Rightarrow> resource \<Rightarrow> 'n)
     \<Rightarrow> ('c, 'a) Subscription_scheme list \<Rightarrow> resource list \<Rightarrow> 'n list" where
  "subscriptionNotifications matchParsedFhirQueryParams buildNotification
       activeSubscriptions eligibleResources =
     concat (map (\<lambda>subscription.
                    map (buildNotification subscription)
                      (filter (matchSubscription matchParsedFhirQueryParams subscription)
                         eligibleResources))
               activeSubscriptions)"

section \<open>Publishing in batches\<close>

definition SNS_MAX_BATCH_SIZE :: nat where
  "SNS_MAX_BATCH_SIZE = 10"

text \<open>
  lodash's \<^verbatim>\<open>chunk(array, size)\<close>: nothing for an empty array or a size below one;
  otherwise slices of \<^verbatim>\<open>size\<close> elements (here \<open>n\<close>) are cut from the front until the array is used up.
\<close>

function chunk :: "'a list \<Rightarrow> nat \<Rightarrow> 'a list list" where
  "chunk array n =
     (if array = [] \<or> n < 1 then []
      else take n array # chunk (drop n array) n)"
  by pat_completeness auto
termination
  by (relation "measure (\<lambda>(array, n). length array)") auto

declare chunk.simps [simp del]

text \<open>
  One entry of \<^verbatim>\<open>PublishBatchRequestEntries\<close>. The only message attribute is
  \<^verbatim>\<open>channelType: {DataType: 'String', StringValue: ...}\<close>; the record keeps its string value.
\<close>

record PublishBatchRequestEntry =
  Id :: string
  Message :: string
  channelTypeAttribute :: string

record PublishBatchCommand =
  PublishBatchRequestEntries :: "PublishBatchRequestEntry list"
  TopicArn :: string

text \<open>
  The entries of one batch. \<^verbatim>\<open>v4()\<close> draws a fresh identifier at each call: \<open>v4 k\<close> is the
  identifier of the \<open>k\<close>-th call, and the number of calls made so far is passed along.
  \<^verbatim>\<open>JSON.stringify\<close> is the parameter \<open>stringify\<close>.
\<close>

fun batchEntries ::
  "(nat \<Rightarrow> string) \<Rightarrow> ('n SubscriptionNotification_scheme \<Rightarrow> string) \<Rightarrow> nat
     \<Rightarrow> 'n SubscriptionNotification_scheme list \<Rightarrow> PublishBatchRequestEntry list" where
  "batchEntries v4 stringify k [] = []"
| "batchEntries v4 stringify k (n # ns) =
     \<lparr>Id = v4 k, Message = stringify n, channelTypeAttribute = channelType n\<rparr>
       # batchEntries v4 stringify (Suc k) ns"

text \<open>
  The commands handed to \<^verbatim>\<open>snsClient.send\<close>, one for each element of the chunked array.
\<close>

fun publishCommands ::
  "(nat \<Rightarrow> string) \<Rightarrow> ('n SubscriptionNotification_scheme \<Rightarrow> string) \<Rightarrow> string \<Rightarrow> nat
     \<Rightarrow> 'n SubscriptionNotification_scheme list list \<Rightarrow> PublishBatchCommand list" where
  "publishCommands v4 stringify topicArn k [] = []"
| "publishCommands v4 stringify topicArn k (batch # batches) =
     \<lparr>PublishBatchRequestEntries = batchEntries v4 stringify k batch, TopicArn = topicArn\<rparr>
       # publishCommands v4 stringify topicArn (k + length batch) batches"

text \<open>
  The last step of \<^verbatim>\<open>match\<close>:
  \<^verbatim>\<open>chunk(subscriptionNotifications, SNS_MAX_BATCH_SIZE).map(batch => snsClient.send(command))\<close>.
  The result lists the commands handed to \<^verbatim>\<open>snsClient.send\<close>, one call for each command.
\<close>

definition sendBatches ::
  "(nat \<Rightarrow> string) \<Rightarrow> ('n SubscriptionNotification_scheme \<Rightarrow> string) \<Rightarrow> string
     \<Rightarrow> 'n SubscriptionNotification_scheme list \<Rightarrow> PublishBatchCommand list" where
  "sendBatches v4 stringify topicArn notifications =
     publishCommands v4 stringify topicArn 0 (chunk notifications SNS_MAX_BATCH_SIZE)"

section \<open>Properties of tokenQuery\<close>

subsection \<open>Auxiliary facts\<close>

lemma unsupportedModifier_falsy:
  "modifier = None \<or> modifier = Some [] \<Longrightarrow> unsupportedModifier modifier = None"
  by (auto simp: unsupportedModifier_def)

lemma keywordSuffix_eq:
  "keywordSuffix compiled u = (if u \<and> path compiled \<noteq> ''id'' then ''.keyword'' else [])"
  by (simp add: keywordSuffix_def useKeywordSuffix_def FIELDS_WITHOUT_KEYWORD_def)

lemma length_systemQueries:
  "length (systemQueries compiled val u) = (if system val = None then 0 else 1)"
  by (simp add: systemQueries_def split: option.splits)

lemma length_codeQueries:
  "length (codeQueries compiled val u) = (if code val = None then 0 else 1)"
  by (simp add: codeQueries_def split: option.splits)

lemma length_noSystemQueries:
  "length (noSystemQueries compiled val)
     = (if explicitNoSystemProperty val = Some True then 1 else 0)"
  by (simp add: noSystemQueries_def)

subsection \<open>Modifiers\<close>

text \<open>
  C6. Whatever the compiled parameter, the token value and the flag, a call with a
  non-empty modifier string raises \<^verbatim>\<open>InvalidSearchParameterError\<close> (the set of supported
  modifiers is empty), and so returns no query.
\<close>

theorem tokenQuery_modifier_rejected:
  "m \<noteq> [] \<Longrightarrow>
   tokenQuery compiled val useKeywordSubFields (Some m)
     = Inl (InvalidSearchParameterError (''Unsupported token search modifier: '' @ m))
   \<and> (\<forall>q. tokenQuery compiled val useKeywordSubFields (Some m) \<noteq> Inr q)"
  by (simp add: tokenQuery_def unsupportedModifier_def SUPPORTED_MODIFIERS_def)

theorem tokenQuery_modifier_rejected_witness:
  "''exact'' \<noteq> [] \<and>
   tokenQuery \<lparr>path = ''identifier''\<rparr>
       \<lparr>system = Some ''http://example.org'', code = Some ''active'',
        explicitNoSystemProperty = None\<rparr> True (Some ''exact'')
     = Inl (InvalidSearchParameterError ''Unsupported token search modifier: exact'')"
  using tokenQuery_modifier_rejected [of "''exact''" "\<lparr>path = ''identifier''\<rparr>"
      "\<lparr>system = Some ''http://example.org'', code = Some ''active'',
        explicitNoSystemProperty = None\<rparr>" True]
  by simp

subsection \<open>The code clause\<close>

text \<open>
  C1. For a compiled parameter with path \<^verbatim>\<open>intent\<close> and a token value whose code is
  \<^verbatim>\<open>order\<close> (likewise \<^verbatim>\<open>original-order\<close>), the code block pushes exactly one clause, the
  term equality \<^verbatim>\<open>{intent: code}\<close> (which the source nests as \<^verbatim>\<open>bool.must.term\<close>), and no
  multi-field match. That clause stands in \<^verbatim>\<open>queries\<close> between the system clause and the
  no-system clause, and it is the whole result when the value has a code only.
\<close>

theorem tokenQuery_intent_order:
  "path compiled = ''intent'' \<Longrightarrow> code val = Some c \<Longrightarrow> c = ''order'' \<or> c = ''original-order'' \<Longrightarrow>
   codeQueries compiled val useKeywordSubFields
     = [JObject [(''bool'',
          JObject [(''must'',
            JObject [(''term'', JObject [(''intent'', JString c)])])])]]
   \<and> (\<forall>fs q. multi_match fs q \<notin> set (codeQueries compiled val useKeywordSubFields))
   \<and> queries compiled val useKeywordSubFields
       = systemQueries compiled val useKeywordSubFields
         @ [JObject [(''bool'',
              JObject [(''must'',
                JObject [(''term'', JObject [(''intent'', JString c)])])])]]
         @ noSystemQueries compiled val
   \<and> (system val = None \<longrightarrow> explicitNoSystemProperty val \<noteq> Some True \<longrightarrow>
        tokenQuery compiled val useKeywordSubFields None
          = Inr (JObject [(''bool'',
              JObject [(''must'',
                JObject [(''term'', JObject [(''intent'', JString c)])])])]))"
  by (auto simp: tokenQuery_def unsupportedModifier_def queries_def codeQueries_def
      systemQueries_def noSystemQueries_def intentTerm_def multi_match_def)

theorem tokenQuery_intent_order_witness:
  "tokenQuery \<lparr>path = ''intent''\<rparr>
       \<lparr>system = None, code = Some ''order'', explicitNoSystemProperty = None\<rparr> True None
     = Inr (JObject [(''bool'',
         JObject [(''must'',
           JObject [(''term'', JObject [(''intent'', JString ''order'')])])])])
   \<and> codeQueries \<lparr>path = ''intent''\<rparr>
       \<lparr>system = Some ''http://hl7.org/fhir/request-intent'', code = Some ''original-order'',
        explicitNoSystemProperty = None\<rparr> False
     = [JObject [(''bool'',
          JObject [(''must'',
            JObject [(''term'', JObject [(''intent'', JString ''original-order'')])])])]]"
  using tokenQuery_intent_order [of "\<lparr>path = ''intent''\<rparr>"
      "\<lparr>system = None, code = Some ''order'', explicitNoSystemProperty = None\<rparr>"
      "''order''" True]
    tokenQuery_intent_order [of "\<lparr>path = ''intent''\<rparr>"
      "\<lparr>system = Some ''http://hl7.org/fhir/request-intent'', code = Some ''original-order'',
        explicitNoSystemProperty = None\<rparr>"
      "''original-order''" False]
  by simp

text \<open>
  C2, as the code has it. For a token value with a code that is not one of the two
  \<^verbatim>\<open>intent\<close> exceptions, the code block pushes one multi-field match on the code. Its
  fields are \<^verbatim>\<open>path.code\<close>, \<^verbatim>\<open>path.coding.code\<close>, \<^verbatim>\<open>path.value\<close> and the bare path. When
  the suffix is in use, that is when \<^verbatim>\<open>useKeywordSubFields\<close> is true and the path is not
  \<^verbatim>\<open>id\<close>, each of the four carries \<^verbatim>\<open>.keyword\<close> and the bare path without suffix follows
  as a fifth field. Otherwise the four fields carry no suffix and there is no fifth.
\<close>

theorem tokenQuery_code_fields:
  "code val = Some c \<Longrightarrow>
   \<not> (path compiled = ''intent'' \<and> (c = ''order'' \<or> c = ''original-order'')) \<Longrightarrow>
   codeQueries compiled val useKeywordSubFields
     = [JObject [(''multi_match'',
          JObject [(''fields'', JArray (map JString
                     (if useKeywordSubFields \<and> path compiled \<noteq> ''id''
                      then [path compiled @ ''.code.keyword'',
                            path compiled @ ''.coding.code.keyword'',
                            path compiled @ ''.value.keyword'',
                            path compiled @ ''.keyword'',
                            path compiled]
                      else [path compiled @ ''.code'',
                            path compiled @ ''.coding.code'',
                            path compiled @ ''.value'',
                            path compiled]))),
                   (''query'', JString c),
                   (''lenient'', JBool True)])]]"
  by (auto simp: codeQueries_def codeFields_def multi_match_def keywordSuffix_eq
      useKeywordSuffix_def FIELDS_WITHOUT_KEYWORD_def)

theorem tokenQuery_code_fields_witness:
  "codeQueries \<lparr>path = ''status''\<rparr>
       \<lparr>system = None, code = Some ''active'', explicitNoSystemProperty = None\<rparr> True
     = [JObject [(''multi_match'',
          JObject [(''fields'', JArray
                     [JString ''status.code.keyword'', JString ''status.coding.code.keyword'',
                      JString ''status.value.keyword'', JString ''status.keyword'',
                      JString ''status'']),
                   (''query'', JString ''active''),
                   (''lenient'', JBool True)])]]"
  using tokenQuery_code_fields [of
      "\<lparr>system = None, code = Some ''active'', explicitNoSystemProperty = None\<rparr>"
      "''active''" "\<lparr>path = ''status''\<rparr>" True]
  by simp

text \<open>
  The claim as the specification words it, with the fifth field whenever
  \<^verbatim>\<open>useKeywordSubFields\<close> is true, fails for the path \<^verbatim>\<open>id\<close>: the flag is true, and the
  field list has the four fields only.
\<close>

theorem tokenQuery_code_fields_id_counterexample:
  "tokenQuery \<lparr>path = ''id''\<rparr>
       \<lparr>system = None, code = Some ''abc'', explicitNoSystemProperty = None\<rparr> True None
     = Inr (multi_match [''id.code'', ''id.coding.code'', ''id.value'', ''id''] ''abc'')
   \<and> tokenQuery \<lparr>path = ''id''\<rparr>
       \<lparr>system = None, code = Some ''abc'', explicitNoSystemProperty = None\<rparr> True None
     \<noteq> Inr (multi_match [''id.code'', ''id.coding.code'', ''id.value'', ''id'', ''id''] ''abc'')
   \<and> length (codeFields \<lparr>path = ''id''\<rparr> True) = 4"
  by (simp add: tokenQuery_def unsupportedModifier_def queries_def systemQueries_def
      codeQueries_def noSystemQueries_def codeFields_def multi_match_def keywordSuffix_eq
      useKeywordSuffix_def FIELDS_WITHOUT_KEYWORD_def)

subsection \<open>The system clause and the no-system clause\<close>

text \<open>
  C5. When only \<^verbatim>\<open>system\<close> is set (no code, \<^verbatim>\<open>explicitNoSystemProperty\<close> absent or false) and
  no modifier is passed, the result is the multi-field match itself, not wrapped: its
  fields are \<^verbatim>\<open>path.system\<close> and \<^verbatim>\<open>path.coding.system\<close>, each with \<^verbatim>\<open>.keyword\<close> when the
  suffix is in use, its query is the system, and \<^verbatim>\<open>lenient\<close> is true.
\<close>

theorem tokenQuery_system_only:
  "system val = Some s \<Longrightarrow> code val = None \<Longrightarrow> explicitNoSystemProperty val \<noteq> Some True \<Longrightarrow>
   modifier = None \<or> modifier = Some [] \<Longrightarrow>
   tokenQuery compiled val useKeywordSubFields modifier
     = Inr (JObject [(''multi_match'',
         JObject [(''fields'', JArray
                     [JString (path compiled @ ''.system''
                        @ (if useKeywordSubFields \<and> path compiled \<noteq> ''id''
                           then ''.keyword'' else [])),
                      JString (path compiled @ ''.coding.system''
                        @ (if useKeywordSubFields \<and> path compiled \<noteq> ''id''
                           then ''.keyword'' else []))]),
                  (''query'', JString s),
                  (''lenient'', JBool True)])])"
  by (simp add: tokenQuery_def unsupportedModifier_falsy queries_def systemQueries_def
      codeQueries_def noSystemQueries_def multi_match_def keywordSuffix_eq)

theorem tokenQuery_system_only_witness:
  "tokenQuery \<lparr>path = ''identifier''\<rparr>
       \<lparr>system = Some ''http://example.org'', code = None,
        explicitNoSystemProperty = Some False\<rparr> True None
     = Inr (JObject [(''multi_match'',
         JObject [(''fields'', JArray
                     [JString ''identifier.system.keyword'',
                      JString ''identifier.coding.system.keyword'']),
                  (''query'', JString ''http://example.org''),
                  (''lenient'', JBool True)])])"
  using tokenQuery_system_only [of
      "\<lparr>system = Some ''http://example.org'', code = None,
        explicitNoSystemProperty = Some False\<rparr>"
      "''http://example.org''" None "\<lparr>path = ''identifier''\<rparr>" True]
  by simp

text \<open>
  C7. When \<^verbatim>\<open>explicitNoSystemProperty\<close> is true, \<^verbatim>\<open>system\<close> and \<^verbatim>\<open>code\<close> are undefined and
  no modifier is passed, the result is the single clause \<^verbatim>\<open>bool.must_not.exists\<close> on the
  field \<^verbatim>\<open>path.system\<close>, which never carries the suffix.
\<close>

theorem tokenQuery_no_system_only:
  "system val = None \<Longrightarrow> code val = None \<Longrightarrow> explicitNoSystemProperty val = Some True \<Longrightarrow>
   modifier = None \<or> modifier = Some [] \<Longrightarrow>
   tokenQuery compiled val useKeywordSubFields modifier
     = Inr (JObject [(''bool'',
         JObject [(''must_not'',
           JObject [(''exists'',
             JObject [(''field'', JString (path compiled @ ''.system''))])])])])"
  by (simp add: tokenQuery_def unsupportedModifier_falsy queries_def systemQueries_def
      codeQueries_def noSystemQueries_def)

theorem tokenQuery_no_system_only_witness:
  "tokenQuery \<lparr>path = ''identifier''\<rparr>
       \<lparr>system = None, code = None, explicitNoSystemProperty = Some True\<rparr> True None
     = Inr (JObject [(''bool'',
         JObject [(''must_not'',
           JObject [(''exists'',
             JObject [(''field'', JString ''identifier.system'')])])])])"
  using tokenQuery_no_system_only [of
      "\<lparr>system = None, code = None, explicitNoSystemProperty = Some True\<rparr>"
      None "\<lparr>path = ''identifier''\<rparr>" True]
  by simp

subsection \<open>Combining the clauses\<close>

text \<open>
  C8. With no modifier passed: \<^verbatim>\<open>queries\<close> holds one clause for a defined system, one for
  a defined code and one for a true \<^verbatim>\<open>explicitNoSystemProperty\<close>. If exactly one clause
  was produced, the result is that clause itself; if more than one was produced, the
  result is \<^verbatim>\<open>{bool: {must: queries}}\<close> with all of them, in the order of production.
\<close>

theorem tokenQuery_combine:
  "modifier = None \<or> modifier = Some [] \<Longrightarrow>
   length (queries compiled val useKeywordSubFields)
     = (if system val = None then 0 else 1) + (if code val = None then 0 else 1)
       + (if explicitNoSystemProperty val = Some True then 1 else 0)
   \<and> (\<forall>q. queries compiled val useKeywordSubFields = [q] \<longrightarrow>
          tokenQuery compiled val useKeywordSubFields modifier = Inr q)
   \<and> (1 < length (queries compiled val useKeywordSubFields) \<longrightarrow>
          tokenQuery compiled val useKeywordSubFields modifier
            = Inr (JObject [(''bool'',
                JObject [(''must'', JArray (queries compiled val useKeywordSubFields))])]))"
proof (intro conjI allI impI)
  assume m: "modifier = None \<or> modifier = Some []"
  show "length (queries compiled val useKeywordSubFields)
     = (if system val = None then 0 else 1) + (if code val = None then 0 else 1)
       + (if explicitNoSystemProperty val = Some True then 1 else 0)"
    unfolding queries_def length_append length_systemQueries length_codeQueries
      length_noSystemQueries by simp
  { fix q assume "queries compiled val useKeywordSubFields = [q]"
    with m show "tokenQuery compiled val useKeywordSubFields modifier = Inr q"
      by (simp add: tokenQuery_def unsupportedModifier_falsy) }
  { assume "1 < length (queries compiled val useKeywordSubFields)"
    with m show "tokenQuery compiled val useKeywordSubFields modifier
            = Inr (JObject [(''bool'',
                JObject [(''must'', JArray (queries compiled val useKeywordSubFields))])])"
      by (simp add: tokenQuery_def unsupportedModifier_falsy boolMust_def) }
qed

theorem tokenQuery_combine_witness:
  "tokenQuery \<lparr>path = ''code''\<rparr>
       \<lparr>system = None, code = Some ''active'', explicitNoSystemProperty = None\<rparr> False None
     = Inr (multi_match [''code.code'', ''code.coding.code'', ''code.value'', ''code'']
              ''active'')
   \<and> tokenQuery \<lparr>path = ''code''\<rparr>
       \<lparr>system = Some ''http://example.org'', code = Some ''active'',
        explicitNoSystemProperty = None\<rparr> False None
     = Inr (JObject [(''bool'', JObject [(''must'', JArray
         [multi_match [''code.system'', ''code.coding.system''] ''http://example.org'',
          multi_match [''code.code'', ''code.coding.code'', ''code.value'', ''code'']
            ''active''])])])"
  using tokenQuery_combine [of None "\<lparr>path = ''code''\<rparr>"
      "\<lparr>system = None, code = Some ''active'', explicitNoSystemProperty = None\<rparr>" False]
    tokenQuery_combine [of None "\<lparr>path = ''code''\<rparr>"
      "\<lparr>system = Some ''http://example.org'', code = Some ''active'',
        explicitNoSystemProperty = None\<rparr>" False]
  by (simp add: queries_def systemQueries_def codeQueries_def noSystemQueries_def
      codeFields_def keywordSuffix_eq useKeywordSuffix_def)

text \<open>
  C10. With \<^verbatim>\<open>system\<close> and \<^verbatim>\<open>code\<close> undefined, \<^verbatim>\<open>explicitNoSystemProperty\<close> absent or false
  and no modifier passed, the call does not raise: it returns the empty conjunction
  \<^verbatim>\<open>{bool: {must: []}}\<close>. Read as the conjunction of its clauses, that query asks nothing
  of a resource: whatever it takes for a resource to satisfy a clause, every resource
  satisfies all the clauses produced, there being none.
\<close>

theorem tokenQuery_empty:
  "system val = None \<Longrightarrow> code val = None \<Longrightarrow> explicitNoSystemProperty val \<noteq> Some True \<Longrightarrow>
   modifier = None \<or> modifier = Some [] \<Longrightarrow>
   tokenQuery compiled val useKeywordSubFields modifier
     = Inr (JObject [(''bool'', JObject [(''must'', JArray [])])])
   \<and> (\<forall>holds (r :: resource).
         list_all (\<lambda>q. holds q r) (queries compiled val useKeywordSubFields))"
  by (simp add: tokenQuery_def unsupportedModifier_falsy queries_def systemQueries_def
      codeQueries_def noSystemQueries_def boolMust_def)

theorem tokenQuery_empty_witness:
  "tokenQuery \<lparr>path = ''identifier''\<rparr>
       \<lparr>system = None, code = None, explicitNoSystemProperty = Some False\<rparr> True None
     = Inr (JObject [(''bool'', JObject [(''must'', JArray [])])])
   \<and> tokenQuery \<lparr>path = ''identifier''\<rparr>
       \<lparr>system = None, code = None, explicitNoSystemProperty = None\<rparr> False (Some [])
     = Inr (JObject [(''bool'', JObject [(''must'', JArray [])])])"
  using tokenQuery_empty [of
      "\<lparr>system = None, code = None, explicitNoSystemProperty = Some False\<rparr>"
      None "\<lparr>path = ''identifier''\<rparr>" True]
    tokenQuery_empty [of
      "\<lparr>system = None, code = None, explicitNoSystemProperty = None\<rparr>"
      "Some []" "\<lparr>path = ''identifier''\<rparr>" False]
  by simp

section \<open>Properties of the matcher\<close>

lemma matchSubscription_fun:
  "matchSubscription matchParsed s
     = (\<lambda>r. tenantStrictEquals (tenantId s) (r ''_tenantId'')
              \<and> matchParsed (parsedCriteria s) r)"
  by (rule ext) (simp add: matchSubscription_def)

text \<open>
  C4. The notifications of a match cycle are, in order, one notification for each pair
  of a subscription and an eligible resource such that the tenant of the subscription
  equals the \<^verbatim>\<open>_tenantId\<close> of the resource (both undefined, or the resource carries the
  very string of the subscription) and the in-memory matcher accepts the resource for the
  parsed criteria of the subscription; the other pairs give none. A single pair gives
  exactly one notification when it satisfies both conditions and none otherwise, and
  \<^verbatim>\<open>matchSubscription\<close> holds of a pair exactly under these two conditions. So a pair
  whose tenants differ never matches, whatever the criteria say.
\<close>

theorem subscriptionNotifications_pairs:
  "subscriptionNotifications matchParsed buildNotification subs rs
     = map (\<lambda>(s, r). buildNotification s r)
         (filter (\<lambda>(s, r). (case tenantId s of
                                None \<Rightarrow> r ''_tenantId'' = None
                              | Some t \<Rightarrow> r ''_tenantId'' = Some (JString t))
                            \<and> matchParsed (parsedCriteria s) r)
            (List.product subs rs))
   \<and> (\<forall>s r. matchSubscription matchParsed s r \<longleftrightarrow>
          ((tenantId s = None \<and> r ''_tenantId'' = None)
           \<or> (\<exists>t. tenantId s = Some t \<and> r ''_tenantId'' = Some (JString t)))
          \<and> matchParsed (parsedCriteria s) r)
   \<and> (\<forall>s r. subscriptionNotifications matchParsed buildNotification [s] [r]
          = (if ((tenantId s = None \<and> r ''_tenantId'' = None)
                 \<or> (\<exists>t. tenantId s = Some t \<and> r ''_tenantId'' = Some (JString t)))
                \<and> matchParsed (parsedCriteria s) r
             then [buildNotification s r] else []))
   \<and> (\<forall>s r t. tenantId s = Some t \<and> r ''_tenantId'' \<noteq> Some (JString t) \<longrightarrow>
          \<not> matchSubscription matchParsed s r
          \<and> subscriptionNotifications matchParsed buildNotification [s] [r] = [])
   \<and> (\<forall>s r. tenantId s = None \<and> r ''_tenantId'' \<noteq> None \<longrightarrow>
          \<not> matchSubscription matchParsed s r
          \<and> subscriptionNotifications matchParsed buildNotification [s] [r] = [])"
proof (intro conjI)
  show "subscriptionNotifications matchParsed buildNotification subs rs
     = map (\<lambda>(s, r). buildNotification s r)
         (filter (\<lambda>(s, r). (case tenantId s of
                                None \<Rightarrow> r ''_tenantId'' = None
                              | Some t \<Rightarrow> r ''_tenantId'' = Some (JString t))
                            \<and> matchParsed (parsedCriteria s) r)
            (List.product subs rs))"
    by (induction subs)
      (simp_all add: subscriptionNotifications_def matchSubscription_fun
        tenantStrictEquals_def filter_map comp_def)
qed (auto simp: subscriptionNotifications_def matchSubscription_def tenantStrictEquals_def
      split: option.splits)

theorem subscriptionNotifications_pairs_witness:
  "subscriptionNotifications (\<lambda>c r. r ''status'' = Some (JString c))
       (\<lambda>s r. (parsedCriteria s, r ''id''))
       [\<lparr>tenantId = Some ''T1'', parsedCriteria = ''active''\<rparr>,
        \<lparr>tenantId = Some ''T2'', parsedCriteria = ''active''\<rparr>,
        \<lparr>tenantId = None, parsedCriteria = ''active''\<rparr>]
       [[''_tenantId'' \<mapsto> JString ''T1'', ''id'' \<mapsto> JString ''R1'',
         ''status'' \<mapsto> JString ''active''],
        [''_tenantId'' \<mapsto> JString ''T3'', ''id'' \<mapsto> JString ''R2'',
         ''status'' \<mapsto> JString ''active''],
        [''id'' \<mapsto> JString ''R3'', ''status'' \<mapsto> JString ''active'']]
     = [(''active'', Some (JString ''R1'')), (''active'', Some (JString ''R3''))]
   \<and> matchSubscription (\<lambda>c r. r ''status'' = Some (JString c))
         \<lparr>tenantId = Some ''T1'', parsedCriteria = ''active''\<rparr>
         [''_tenantId'' \<mapsto> JString ''T1'', ''id'' \<mapsto> JString ''R1'',
          ''status'' \<mapsto> JString ''active'']
   \<and> \<not> matchSubscription (\<lambda>c r. r ''status'' = Some (JString c))
         \<lparr>tenantId = Some ''T2'', parsedCriteria = ''active''\<rparr>
         [''_tenantId'' \<mapsto> JString ''T1'', ''id'' \<mapsto> JString ''R1'',
          ''status'' \<mapsto> JString ''active'']
   \<and> \<not> matchSubscription (\<lambda>c r. r ''status'' = Some (JString c))
         \<lparr>tenantId = None, parsedCriteria = ''active''\<rparr>
         [''_tenantId'' \<mapsto> JString ''T1'', ''id'' \<mapsto> JString ''R1'',
          ''status'' \<mapsto> JString ''active'']
   \<and> \<not> matchSubscription (\<lambda>c r. r ''status'' = Some (JString c))
         \<lparr>tenantId = Some ''T1'', parsedCriteria = ''active''\<rparr>
         [''id'' \<mapsto> JString ''R3'', ''status'' \<mapsto> JString ''active'']"
proof -
  note t = subscriptionNotifications_pairs [of "\<lambda>c r. r ''status'' = Some (JString c)"
      "\<lambda>s r. (parsedCriteria s, r ''id'')"
      "[\<lparr>tenantId = Some ''T1'', parsedCriteria = ''active''\<rparr>,
        \<lparr>tenantId = Some ''T2'', parsedCriteria = ''active''\<rparr>,
        \<lparr>tenantId = None, parsedCriteria = ''active''\<rparr>]"
      "[[''_tenantId'' \<mapsto> JString ''T1'', ''id'' \<mapsto> JString ''R1'',
         ''status'' \<mapsto> JString ''active''],
        [''_tenantId'' \<mapsto> JString ''T3'', ''id'' \<mapsto> JString ''R2'',
         ''status'' \<mapsto> JString ''active''],
        [''id'' \<mapsto> JString ''R3'', ''status'' \<mapsto> JString ''active'']]"]
  note a = t [THEN conjunct1]
  note m = t [THEN conjunct2, THEN conjunct1, rule_format]
  note d = t [THEN conjunct2, THEN conjunct2, THEN conjunct2, THEN conjunct1, rule_format,
      THEN conjunct1]
  note u = t [THEN conjunct2, THEN conjunct2, THEN conjunct2, THEN conjunct2, rule_format,
      THEN conjunct1]
  show ?thesis
    apply (intro conjI)
        apply (subst a)
        apply simp
       apply (subst m)
       apply simp
      apply (rule d [of _ "''T2''"])
      apply simp
     apply (rule u)
     apply simp
    apply (rule d [of _ "''T1''"])
    apply simp
    done
qed

section \<open>Properties of the batches\<close>

lemma chunk_Nil: "chunk [] n = []"
  by (subst chunk.simps) simp

lemma chunk_Cons:
  "xs \<noteq> [] \<Longrightarrow> 0 < n \<Longrightarrow> chunk xs n = take n xs # chunk (drop n xs) n"
  by (subst chunk.simps) simp

lemma chunk_Nil_iff: "chunk xs n = [] \<longleftrightarrow> xs = [] \<or> n = 0"
  by (subst chunk.simps) auto

lemma concat_chunk: "0 < n \<Longrightarrow> concat (chunk xs n) = xs"
proof (induction xs n rule: chunk.induct)
  case (1 array n)
  then show ?case by (subst chunk.simps) auto
qed

lemma chunk_elem: "b \<in> set (chunk xs n) \<Longrightarrow> b \<noteq> [] \<and> length b \<le> n"
proof (induction xs n rule: chunk.induct)
  case (1 array n)
  show ?case
  proof (cases "array = [] \<or> n < 1")
    case True
    with "1.prems" show ?thesis by (subst (asm) chunk.simps) simp
  next
    case False
    with "1.prems" have "b = take n array \<or> b \<in> set (chunk (drop n array) n)"
      by (subst (asm) chunk.simps) simp
    with False "1.IH" show ?thesis by auto
  qed
qed

lemma chunk_full: "Suc i < length (chunk xs n) \<Longrightarrow> length (chunk xs n ! i) = n"
proof (induction xs n arbitrary: i rule: chunk.induct)
  case (1 array n)
  show ?case
  proof (cases "array = [] \<or> n < 1")
    case True
    with "1.prems" show ?thesis by (subst (asm) chunk.simps) simp
  next
    case False
    then have eq: "chunk array n = take n array # chunk (drop n array) n"
      by (simp add: chunk_Cons)
    show ?thesis
    proof (cases i)
      case 0
      with "1.prems" eq have "chunk (drop n array) n \<noteq> []" by auto
      then have "n < length array" by (auto simp: chunk_Nil_iff)
      with 0 eq show ?thesis by simp
    next
      case (Suc j)
      with "1.prems" eq have "Suc j < length (chunk (drop n array) n)" by simp
      with "1.IH" False have "length (chunk (drop n array) n ! j) = n" by blast
      with Suc eq show ?thesis by simp
    qed
  qed
qed

lemma sizes_chunk:
  "0 < n \<Longrightarrow>
   map length (chunk xs n)
     = replicate (length xs div n) n
       @ (if length xs mod n = 0 then [] else [length xs mod n])"
proof (induction xs n rule: chunk.induct)
  case (1 array n)
  show ?case
  proof (cases "array = []")
    case True
    then show ?thesis by (simp add: chunk_Nil)
  next
    case False
    with "1.prems" have eq: "chunk array n = take n array # chunk (drop n array) n"
      by (simp add: chunk_Cons)
    from False "1.prems" have "\<not> (array = [] \<or> n < 1)" by simp
    note ih = "1.IH" [OF this "1.prems"]
    show ?thesis
    proof (cases "n \<le> length array")
      case True
      then have "length array div n = Suc ((length array - n) div n)"
        and "length array mod n = (length array - n) mod n"
        using "1.prems" by (simp_all add: le_div_geq le_mod_geq)
      with True eq ih show ?thesis by simp
    next
      case short: False
      with False have "chunk (drop n array) n = []" by (simp add: chunk_Nil)
      with short False eq show ?thesis by simp
    qed
  qed
qed

lemma Message_batchEntries:
  "map Message (batchEntries v4 stringify k b) = map stringify b"
  by (induction b arbitrary: k) simp_all

lemma Message_publishCommands:
  "map (\<lambda>c. map Message (PublishBatchRequestEntries c))
       (publishCommands v4 stringify topicArn k bs)
     = map (map stringify) bs"
  by (induction bs arbitrary: k) (simp_all add: Message_batchEntries)

text \<open>
  C9. The notifications are cut into consecutive batches: put end to end the batches
  give the notifications back, every batch holds between one and ten notifications,
  every batch but the last holds exactly ten, and the sizes are ten for each full ten
  followed by the remainder if there is one. One command is sent for each batch, and
  the messages of the \<open>i\<close>-th command are the notifications of the \<open>i\<close>-th batch.
\<close>

theorem sendBatches_chunks:
  "concat (chunk ns SNS_MAX_BATCH_SIZE) = ns
   \<and> (\<forall>b \<in> set (chunk ns SNS_MAX_BATCH_SIZE). 1 \<le> length b \<and> length b \<le> 10)
   \<and> (\<forall>i. Suc i < length (chunk ns SNS_MAX_BATCH_SIZE) \<longrightarrow>
          length (chunk ns SNS_MAX_BATCH_SIZE ! i) = 10)
   \<and> map length (chunk ns SNS_MAX_BATCH_SIZE)
       = replicate (length ns div 10) 10
         @ (if length ns mod 10 = 0 then [] else [length ns mod 10])
   \<and> length (sendBatches v4 stringify topicArn ns) = length (chunk ns SNS_MAX_BATCH_SIZE)
   \<and> map (\<lambda>c. map Message (PublishBatchRequestEntries c))
         (sendBatches v4 stringify topicArn ns)
       = map (map stringify) (chunk ns SNS_MAX_BATCH_SIZE)"
proof (intro conjI ballI allI impI)
  show "concat (chunk ns SNS_MAX_BATCH_SIZE) = ns"
    by (simp add: concat_chunk SNS_MAX_BATCH_SIZE_def)
next
  fix b assume "b \<in> set (chunk ns SNS_MAX_BATCH_SIZE)"
  from chunk_elem [OF this] show "1 \<le> length b" "length b \<le> 10"
    by (simp_all add: SNS_MAX_BATCH_SIZE_def Suc_le_eq)
next
  fix i assume "Suc i < length (chunk ns SNS_MAX_BATCH_SIZE)"
  from chunk_full [OF this] show "length (chunk ns SNS_MAX_BATCH_SIZE ! i) = 10"
    by (simp add: SNS_MAX_BATCH_SIZE_def)
next
  show "map length (chunk ns SNS_MAX_BATCH_SIZE)
       = replicate (length ns div 10) 10
         @ (if length ns mod 10 = 0 then [] else [length ns mod 10])"
    using sizes_chunk [of 10 ns] by (simp add: SNS_MAX_BATCH_SIZE_def)
next
  show m: "map (\<lambda>c. map Message (PublishBatchRequestEntries c))
         (sendBatches v4 stringify topicArn ns)
       = map (map stringify) (chunk ns SNS_MAX_BATCH_SIZE)"
    by (simp add: sendBatches_def Message_publishCommands)
  from arg_cong [OF m, of length]
  show "length (sendBatches v4 stringify topicArn ns) = length (chunk ns SNS_MAX_BATCH_SIZE)"
    by simp
qed

theorem sendBatches_chunks_witness:
  "map (\<lambda>c. length (PublishBatchRequestEntries c))
       (sendBatches (\<lambda>k. ''id'') subscriptionId ''arn:aws:sns:topic''
          (replicate 23
             \<lparr>subscriptionId = ''S1'', matchedResource = Map.empty,
              channelType = ''rest-hook''\<rparr>))
     = [10, 10, 3]
   \<and> (\<exists>b. b \<in> set (chunk (replicate 23
             \<lparr>subscriptionId = ''S1'', matchedResource = Map.empty,
              channelType = ''rest-hook''\<rparr>) SNS_MAX_BATCH_SIZE))
   \<and> Suc 0 < length (chunk (replicate 23
             \<lparr>subscriptionId = ''S1'', matchedResource = Map.empty,
              channelType = ''rest-hook''\<rparr>) SNS_MAX_BATCH_SIZE)"
proof -
  let ?n = "\<lparr>subscriptionId = ''S1'', matchedResource = Map.empty,
              channelType = ''rest-hook''\<rparr>"
  let ?bs = "chunk (replicate 23 ?n) SNS_MAX_BATCH_SIZE"
  note t = sendBatches_chunks [of "replicate 23 ?n" "\<lambda>k. ''id''" subscriptionId
      "''arn:aws:sns:topic''"]
  have r: "replicate (2::nat) (10::nat) = [10, 10]"
    by (simp add: numeral_2_eq_2)
  from t have "map length ?bs
       = replicate (length (replicate 23 ?n) div 10) 10
         @ (if length (replicate 23 ?n) mod 10 = 0 then []
            else [length (replicate 23 ?n) mod 10])"
    by (elim conjE)
  then have sizes: "map length ?bs = [10, 10, 3]"
    by (simp add: r)
  from arg_cong [OF sizes, of length] have len: "length ?bs = 3"
    by simp
  then have ne: "\<exists>b. b \<in> set ?bs"
    by (cases ?bs) auto
  from t have "map (\<lambda>c. map Message (PublishBatchRequestEntries c))
         (sendBatches (\<lambda>k. ''id'') subscriptionId ''arn:aws:sns:topic'' (replicate 23 ?n))
       = map (map subscriptionId) ?bs"
    by (elim conjE)
  from arg_cong [OF this, of "map length"] sizes
  have "map (\<lambda>c. length (PublishBatchRequestEntries c))
       (sendBatches (\<lambda>k. ''id'') subscriptionId ''arn:aws:sns:topic'' (replicate 23 ?n))
     = [10, 10, 3]"
    by (simp add: comp_def)
  with ne len show ?thesis by simp
qed

end
